theory Spec2Isabelle
  imports Complex_Main "HOL-Library.Char_ord" "HOL-Library.List_Lexorder" "HOL-Library.Multiset"
begin

section \<open>TempTracker: the reading endpoints of \<open>main.py\<close>\<close>

text \<open>
  The three endpoints \<open>add_reading\<close>, \<open>get_readings\<close> and \<open>get_analysis\<close> of
  \<open>src/main.py\<close> are embedded as HOL functions.

  \<^item> Python floats are idealised as \<open>real\<close>: \<open>statistics.mean\<close> and
    \<open>statistics.stdev\<close> compute with exact fractions before the final conversion, and the
    model keeps the exact value.
  \<^item> A naive \<open>datetime\<close> is the number of microseconds since \<open>datetime.min\<close>
    (0001-01-01T00:00:00); the representable range ends at \<open>datetime.max\<close>
    (9999-12-31T23:59:59.999999).
  \<^item> The Firebase node \<open>readings\<close> is an association list from push keys to stored
    readings, in the order \<open>readings.items()\<close> yields them; \<open>ref.get()\<close> of a missing
    node is the empty list.
  \<^item> \<open>datetime.fromisoformat\<close>, \<open>datetime.isoformat\<close>, \<open>datetime.now()\<close> and the key
    that \<open>ref.push\<close> generates are parameters.
  \<^item> Every exception the source can raise is a value; the \<open>except\<close> clauses of the
    endpoints are the functions \<open>except_clauses\<close> and \<open>except_exception\<close>. The calls to
    Firebase themselves are taken to succeed.
\<close>

subsection \<open>Data\<close>

type_synonym datetime = int

definition DATETIME_MAX :: datetime where
  "DATETIME_MAX = 315537897599999999"

text \<open>
  Exceptions raised inside a \<open>try\<close> block: \<open>HTTPException(status_code, detail)\<close>, and the
  library exceptions \<open>OverflowError\<close> (datetime arithmetic), \<open>ValueError\<close>
  (\<open>fromisoformat\<close>, \<open>max\<close> and \<open>min\<close> of an empty list) and \<open>StatisticsError\<close>
  (\<open>mean\<close> and \<open>stdev\<close> of too few values).
\<close>

datatype exn = HTTPException nat string | OverflowError | ValueError | StatisticsError

text \<open>
  What the client receives for a failed request: an \<open>HTTPException\<close> raised by the
  endpoint itself, or \<open>HTTPException(status_code=500, detail=str(e))\<close> for any other
  exception \<open>e\<close>, written \<open>InternalServerError e\<close>.
\<close>

datatype http_error = HTTPError nat string | InternalServerError exn

text \<open>\<open>SensorReading\<close>; the stored dictionary and \<open>ReadingResponse\<close> add the timestamp.\<close>

record sensor_reading =
  temperature :: real
  humidity :: real

record reading = sensor_reading +
  timestamp :: string

type_synonym store = "(string \<times> reading) list"

record add_response =
  status :: string
  message :: string
  data :: reading

record metric_stats =
  average :: real
  maximum :: real
  minimum :: real
  trend :: string

record comfort_info =
  level :: string
  score :: int
  temperature_comment :: string
  humidity_comment :: string

record anomaly = reading +
  reason :: string

record analysis =
  period_hours :: int
  readings_count :: nat
  temperature_stats :: metric_stats
  humidity_stats :: metric_stats
  comfort :: comfort_info
  anomalies :: "anomaly list"

subsection \<open>Library functions\<close>

definition bind_exn :: "exn + 'a \<Rightarrow> ('a \<Rightarrow> exn + 'b) \<Rightarrow> exn + 'b" where
  "bind_exn r f = (case r of Inl e \<Rightarrow> Inl e | Inr v \<Rightarrow> f v)"

text \<open>\<open>statistics.mean\<close>: \<open>StatisticsError\<close> on no data.\<close>

definition mean :: "real list \<Rightarrow> exn + real" where
  "mean xs = (if xs = [] then Inl StatisticsError
              else Inr (sum_list xs / real (length xs)))"

text \<open>\<open>statistics.stdev\<close>: the sample standard deviation, \<open>StatisticsError\<close> on fewer than
  two values.\<close>

definition stdev :: "real list \<Rightarrow> exn + real" where
  "stdev xs =
     (if length xs < 2 then Inl StatisticsError
      else let c = sum_list xs / real (length xs) in
        Inr (sqrt (sum_list (map (\<lambda>x. (x - c)\<^sup>2) xs) / real (length xs - 1))))"

text \<open>The builtins \<open>max\<close> and \<open>min\<close> on a list: \<open>ValueError\<close> on the empty list.\<close>

definition max_list :: "real list \<Rightarrow> exn + real" where
  "max_list xs = (case xs of [] \<Rightarrow> Inl ValueError | x # ys \<Rightarrow> Inr (fold max ys x))"

definition min_list :: "real list \<Rightarrow> exn + real" where
  "min_list xs = (case xs of [] \<Rightarrow> Inl ValueError | x # ys \<Rightarrow> Inr (fold min ys x))"

text \<open>The builtin \<open>round(x, ndigits)\<close>: to the nearest multiple of \<open>10 ^ -ndigits\<close>, a tie
  going to the even one.\<close>

definition round_py :: "real \<Rightarrow> nat \<Rightarrow> real" where
  "round_py x ndigits =
     (let y = x * 10 ^ ndigits; f = \<lfloor>y\<rfloor>; d = y - of_int f in
        of_int (if d < 1 / 2 then f
                else if 1 / 2 < d then f + 1
                else if even f then f else f + 1) / 10 ^ ndigits)"

text \<open>\<open>datetime.now() - timedelta(hours=hours)\<close>: \<open>OverflowError\<close> when the result is not a
  representable datetime.\<close>

definition cutoff_time :: "datetime \<Rightarrow> int \<Rightarrow> exn + datetime" where
  "cutoff_time now hours =
     (let c = now - hours * 3600000000 in
        if 0 \<le> c \<and> c \<le> DATETIME_MAX then Inr c else Inl OverflowError)"

text \<open>The \<open>except\<close> clauses: an \<open>HTTPException\<close> is re-raised, anything else becomes a 500.\<close>

definition except_clauses :: "exn + 'a \<Rightarrow> http_error + 'a" where
  "except_clauses r =
     (case r of
        Inl (HTTPException code detail) \<Rightarrow> Inl (HTTPError code detail)
      | Inl e \<Rightarrow> Inl (InternalServerError e)
      | Inr v \<Rightarrow> Inr v)"

text \<open>The single clause \<open>except Exception\<close> of \<open>get_readings\<close>: every exception becomes
  a 500.\<close>

definition except_exception :: "exn + 'a \<Rightarrow> http_error + 'a" where
  "except_exception r = (case r of Inl e \<Rightarrow> Inl (InternalServerError e) | Inr v \<Rightarrow> Inr v)"

subsection \<open>\<open>POST /reading\<close>\<close>

definition add_reading ::
  "(datetime \<Rightarrow> string) \<Rightarrow> datetime \<Rightarrow> string \<Rightarrow> store \<Rightarrow> sensor_reading
    \<Rightarrow> http_error + (add_response \<times> store)" where
  "add_reading isoformat now push_key db r =
     except_clauses
       (if \<not> (- 50 \<le> temperature r \<and> temperature r \<le> 150) then
          Inl (HTTPException 400 ''Temperature out of valid range'')
        else if \<not> (0 \<le> humidity r \<and> humidity r \<le> 100) then
          Inl (HTTPException 400 ''Humidity must be between 0 and 100'')
        else
          let new_reading = \<lparr>temperature = temperature r, humidity = humidity r,
                             timestamp = isoformat now\<rparr>
          in Inr (\<lparr>status = ''success'', message = ''Reading recorded'', data = new_reading\<rparr>,
                  db @ [(push_key, new_reading)]))"

subsection \<open>\<open>GET /readings\<close>\<close>

fun readings_loop ::
  "(string \<Rightarrow> datetime option) \<Rightarrow> datetime \<Rightarrow> store \<Rightarrow> reading list \<Rightarrow> exn + reading list" where
  "readings_loop fromisoformat cutoff [] filtered_readings = Inr filtered_readings"
| "readings_loop fromisoformat cutoff ((key, r) # rest) filtered_readings =
     (case fromisoformat (timestamp r) of
        None \<Rightarrow> Inl ValueError
      | Some ts \<Rightarrow>
          if ts > cutoff then
            readings_loop fromisoformat cutoff rest
              (filtered_readings @
                 [\<lparr>temperature = temperature r, humidity = humidity r, timestamp = timestamp r\<rparr>])
          else readings_loop fromisoformat cutoff rest filtered_readings)"

definition get_readings ::
  "(string \<Rightarrow> datetime option) \<Rightarrow> datetime \<Rightarrow> store \<Rightarrow> int \<Rightarrow> http_error + reading list" where
  "get_readings fromisoformat now db hours =
     except_exception
       (if db = [] then Inr []
        else
          bind_exn (cutoff_time now hours) (\<lambda>cutoff.
          bind_exn (readings_loop fromisoformat cutoff db []) (\<lambda>filtered_readings.
          Inr (sort_key timestamp filtered_readings))))"

subsection \<open>\<open>GET /analysis\<close>\<close>

definition RISING :: string where
  "RISING = [CHR 0xE2, CHR 0x86, CHR 0x91] @ '' Rising''"

definition FALLING :: string where
  "FALLING = [CHR 0xE2, CHR 0x86, CHR 0x93] @ '' Falling''"

definition STABLE :: string where
  "STABLE = [CHR 0xE2, CHR 0x86, CHR 0x92] @ '' Stable''"

fun analysis_loop ::
  "(string \<Rightarrow> datetime option) \<Rightarrow> datetime \<Rightarrow> store
    \<Rightarrow> real list \<times> real list \<times> datetime list
    \<Rightarrow> exn + (real list \<times> real list \<times> datetime list)" where
  "analysis_loop fromisoformat cutoff [] acc = Inr acc"
| "analysis_loop fromisoformat cutoff ((key, r) # rest) (temps, humidities, timestamps) =
     (case fromisoformat (timestamp r) of
        None \<Rightarrow> Inl ValueError
      | Some ts \<Rightarrow>
          if ts > cutoff then
            analysis_loop fromisoformat cutoff rest
              (temps @ [temperature r], humidities @ [humidity r], timestamps @ [ts])
          else analysis_loop fromisoformat cutoff rest (temps, humidities, timestamps))"

text \<open>Trend detection, on \<open>sorted_data\<close>: the pair \<open>(temp_trend, humidity_trend)\<close>.\<close>

definition trend_detection :: "(datetime \<times> real \<times> real) list \<Rightarrow> exn + (string \<times> string)" where
  "trend_detection sorted_data =
     (if length sorted_data > 1 then
        let first_half_temp = map (\<lambda>t. fst (snd t)) (take (length sorted_data div 2) sorted_data);
            second_half_temp = map (\<lambda>t. fst (snd t)) (drop (length sorted_data div 2) sorted_data)
        in
        bind_exn (mean second_half_temp) (\<lambda>m2.
        bind_exn (mean first_half_temp) (\<lambda>m1.
        let temp_trend = (if m2 > m1 then RISING else FALLING);
            first_half_hum = map (\<lambda>t. snd (snd t)) (take (length sorted_data div 2) sorted_data);
            second_half_hum = map (\<lambda>t. snd (snd t)) (drop (length sorted_data div 2) sorted_data)
        in
        bind_exn (mean second_half_hum) (\<lambda>h2.
        bind_exn (mean first_half_hum) (\<lambda>h1.
        Inr (temp_trend, if h2 > h1 then RISING else FALLING)))))
      else Inr (STABLE, STABLE))"

text \<open>Comfort analysis, from the two averages.\<close>

definition comfort_analysis :: "real \<Rightarrow> real \<Rightarrow> comfort_info" where
  "comfort_analysis avg_temp avg_humidity =
     (let (score1, temp_comment) =
            (if 18 \<le> avg_temp \<and> avg_temp \<le> 24 then (0 + 50, ''Optimal temperature'')
             else if 15 \<le> avg_temp \<and> avg_temp \<le> 30 then (0 + 25, ''Acceptable temperature'')
             else (0, ''Outside comfort zone''));
          (comfort_score, humidity_comment) =
            (if 40 \<le> avg_humidity \<and> avg_humidity \<le> 60 then (score1 + 50, ''Optimal humidity'')
             else if 30 \<le> avg_humidity \<and> avg_humidity \<le> 70 then
               (score1 + 25, ''Acceptable humidity'')
             else (score1, ''Outside comfort zone''));
          comfort_level =
            (if comfort_score \<ge> 80 then ''Excellent''
             else if comfort_score \<ge> 60 then ''Good''
             else if comfort_score \<ge> 40 then ''Fair''
             else ''Poor'')
      in \<lparr>level = comfort_level, score = comfort_score,
          temperature_comment = temp_comment, humidity_comment = humidity_comment\<rparr>)"

text \<open>Anomaly detection: the loop over \<open>sorted_data\<close>, appending to \<open>anomalies\<close> (here \<open>found\<close>).\<close>

fun anomaly_loop ::
  "(datetime \<Rightarrow> string) \<Rightarrow> real \<Rightarrow> real \<Rightarrow> real \<Rightarrow> real
    \<Rightarrow> (datetime \<times> real \<times> real) list \<Rightarrow> anomaly list \<Rightarrow> anomaly list" where
  "anomaly_loop isoformat avg_temp avg_humidity temp_std humidity_std [] found = found"
| "anomaly_loop isoformat avg_temp avg_humidity temp_std humidity_std ((ts, temp, hum) # rest)
     found =
     (if \<bar>temp - avg_temp\<bar> > 2 * temp_std \<or> \<bar>hum - avg_humidity\<bar> > 2 * humidity_std then
        anomaly_loop isoformat avg_temp avg_humidity temp_std humidity_std rest
          (found @
             [\<lparr>temperature = temp, humidity = hum, timestamp = isoformat ts,
               reason = (if \<bar>temp - avg_temp\<bar> > 2 * temp_std then ''Temperature spike''
                         else ''Humidity spike'')\<rparr>])
      else anomaly_loop isoformat avg_temp avg_humidity temp_std humidity_std rest found)"

definition anomaly_detection ::
  "(datetime \<Rightarrow> string) \<Rightarrow> real list \<Rightarrow> real list \<Rightarrow> real \<Rightarrow> real
    \<Rightarrow> (datetime \<times> real \<times> real) list \<Rightarrow> exn + anomaly list" where
  "anomaly_detection isoformat temps humidities avg_temp avg_humidity sorted_data =
     (if length temps > 2 then
        bind_exn (stdev temps) (\<lambda>temp_std.
        bind_exn (stdev humidities) (\<lambda>humidity_std.
        Inr (anomaly_loop isoformat avg_temp avg_humidity temp_std humidity_std sorted_data [])))
      else Inr [])"

definition get_analysis ::
  "(string \<Rightarrow> datetime option) \<Rightarrow> (datetime \<Rightarrow> string) \<Rightarrow> datetime \<Rightarrow> store \<Rightarrow> int
    \<Rightarrow> http_error + analysis" where
  "get_analysis fromisoformat isoformat now db hours =
     except_clauses
       (if db = [] then Inl (HTTPException 404 ''No readings found'')
        else
          bind_exn (cutoff_time now hours) (\<lambda>cutoff.
          bind_exn (analysis_loop fromisoformat cutoff db ([], [], []))
            (\<lambda>(temps, humidities, timestamps).
          if temps = [] then Inl (HTTPException 404 ''No recent readings found'')
          else
            bind_exn (mean temps) (\<lambda>avg_temp.
            bind_exn (mean humidities) (\<lambda>avg_humidity.
            bind_exn (max_list temps) (\<lambda>max_temp.
            bind_exn (min_list temps) (\<lambda>min_temp.
            bind_exn (max_list humidities) (\<lambda>max_humidity.
            bind_exn (min_list humidities) (\<lambda>min_humidity.
            let sorted_data = sort_key fst (zip timestamps (zip temps humidities)) in
            bind_exn (trend_detection sorted_data) (\<lambda>(temp_trend, humidity_trend).
            let c = comfort_analysis avg_temp avg_humidity in
            bind_exn (anomaly_detection isoformat temps humidities avg_temp avg_humidity
                        sorted_data) (\<lambda>found.
            Inr \<lparr>period_hours = hours,
                 readings_count = length temps,
                 temperature_stats =
                   \<lparr>average = round_py avg_temp 2, maximum = round_py max_temp 2,
                    minimum = round_py min_temp 2, trend = temp_trend\<rparr>,
                 humidity_stats =
                   \<lparr>average = round_py avg_humidity 2, maximum = round_py max_humidity 2,
                    minimum = round_py min_humidity 2, trend = humidity_trend\<rparr>,
                 comfort = c,
                 anomalies = take 5 found\<rparr>)))))))))))"

subsection \<open>The notions the properties are stated with\<close>

text \<open>The parsed timestamp of a stored reading, the readings of the time window in store
  order and in ascending order of time (ties in store order), and the exact statistics.\<close>

definition time_of :: "(string \<Rightarrow> datetime option) \<Rightarrow> reading \<Rightarrow> datetime" where
  "time_of fromisoformat r = the (fromisoformat (timestamp r))"

definition in_window :: "(string \<Rightarrow> datetime option) \<Rightarrow> datetime \<Rightarrow> reading \<Rightarrow> bool" where
  "in_window fromisoformat cutoff r =
     (case fromisoformat (timestamp r) of None \<Rightarrow> False | Some ts \<Rightarrow> cutoff < ts)"

definition window :: "(string \<Rightarrow> datetime option) \<Rightarrow> datetime \<Rightarrow> store \<Rightarrow> reading list" where
  "window fromisoformat cutoff db = filter (in_window fromisoformat cutoff) (map snd db)"

definition sorted_window :: "(string \<Rightarrow> datetime option) \<Rightarrow> datetime \<Rightarrow> store \<Rightarrow> reading list" where
  "sorted_window fromisoformat cutoff db =
     sort_key (time_of fromisoformat) (window fromisoformat cutoff db)"

definition timestamps_valid :: "(string \<Rightarrow> datetime option) \<Rightarrow> store \<Rightarrow> bool" where
  "timestamps_valid fromisoformat db =
     list_all (\<lambda>(key, r). fromisoformat (timestamp r) \<noteq> None) db"

definition arithmetic_mean :: "real list \<Rightarrow> real" where
  "arithmetic_mean xs = sum_list xs / real (length xs)"

definition sample_std :: "real list \<Rightarrow> real" where
  "sample_std xs =
     sqrt ((\<Sum>x\<leftarrow>xs. (x - arithmetic_mean xs)\<^sup>2) / (real (length xs) - 1))"

definition split_half_trend :: "real list \<Rightarrow> string" where
  "split_half_trend vs =
     (if length vs > 1 then
        (if arithmetic_mean (drop (length vs div 2) vs) > arithmetic_mean (take (length vs div 2) vs)
         then RISING else FALLING)
      else STABLE)"

definition temperature_spike :: "real list \<Rightarrow> reading \<Rightarrow> bool" where
  "temperature_spike temps r \<longleftrightarrow> \<bar>temperature r - arithmetic_mean temps\<bar> > 2 * sample_std temps"

definition humidity_spike :: "real list \<Rightarrow> reading \<Rightarrow> bool" where
  "humidity_spike hums r \<longleftrightarrow> \<bar>humidity r - arithmetic_mean hums\<bar> > 2 * sample_std hums"

definition anomaly_entry ::
  "(string \<Rightarrow> datetime option) \<Rightarrow> (datetime \<Rightarrow> string) \<Rightarrow> real list \<Rightarrow> reading \<Rightarrow> anomaly" where
  "anomaly_entry fromisoformat isoformat temps r =
     \<lparr>temperature = temperature r, humidity = humidity r,
      timestamp = isoformat (time_of fromisoformat r),
      reason = (if temperature_spike temps r then ''Temperature spike'' else ''Humidity spike'')\<rparr>"

definition flagged :: "(string \<Rightarrow> datetime option) \<Rightarrow> (datetime \<Rightarrow> string) \<Rightarrow> reading list \<Rightarrow> reading list \<Rightarrow> anomaly list" where
  "flagged fromisoformat isoformat w s =
     (if length w > 2 then
        map (anomaly_entry fromisoformat isoformat (map temperature w))
          (filter (\<lambda>r. temperature_spike (map temperature w) r \<or> humidity_spike (map humidity w) r) s)
      else [])"

subsection \<open>Example data\<close>

text \<open>The hours of 2024-01-01 up to 15:00:00 as timestamps, and six hourly readings stored
  out of order; the request is made at 05:30:00.\<close>

definition sample_times :: "(string \<times> datetime) list" where
  "sample_times =
     [(''2024-01-01T00:00:00'', 63839664000000000),
      (''2024-01-01T01:00:00'', 63839667600000000),
      (''2024-01-01T02:00:00'', 63839671200000000),
      (''2024-01-01T03:00:00'', 63839674800000000),
      (''2024-01-01T04:00:00'', 63839678400000000),
      (''2024-01-01T05:00:00'', 63839682000000000),
      (''2024-01-01T06:00:00'', 63839685600000000),
      (''2024-01-01T07:00:00'', 63839689200000000),
      (''2024-01-01T08:00:00'', 63839692800000000),
      (''2024-01-01T09:00:00'', 63839696400000000),
      (''2024-01-01T10:00:00'', 63839700000000000),
      (''2024-01-01T11:00:00'', 63839703600000000),
      (''2024-01-01T12:00:00'', 63839707200000000),
      (''2024-01-01T13:00:00'', 63839710800000000),
      (''2024-01-01T14:00:00'', 63839714400000000),
      (''2024-01-01T15:00:00'', 63839718000000000)]"

definition sample_fromisoformat :: "string \<Rightarrow> datetime option" where
  "sample_fromisoformat = map_of sample_times"

definition sample_isoformat :: "datetime \<Rightarrow> string" where
  "sample_isoformat t = (case map_of (map (\<lambda>(s, t). (t, s)) sample_times) t of
                           None \<Rightarrow> [] | Some s \<Rightarrow> s)"

definition sample_now :: datetime where
  "sample_now = 63839683800000000"

definition sample_db :: store where
  "sample_db =
     [(''k3'', \<lparr>temperature = 20, humidity = 40, timestamp = ''2024-01-01T02:00:00''\<rparr>),
      (''k1'', \<lparr>temperature = 20, humidity = 40, timestamp = ''2024-01-01T00:00:00''\<rparr>),
      (''k2'', \<lparr>temperature = 20, humidity = 40, timestamp = ''2024-01-01T01:00:00''\<rparr>),
      (''k6'', \<lparr>temperature = 80, humidity = 40, timestamp = ''2024-01-01T05:00:00''\<rparr>),
      (''k4'', \<lparr>temperature = 20, humidity = 40, timestamp = ''2024-01-01T03:00:00''\<rparr>),
      (''k5'', \<lparr>temperature = 20, humidity = 100, timestamp = ''2024-01-01T04:00:00''\<rparr>)]"

text \<open>Three readings with fractional values, and sixteen hourly readings of which six lie
  more than two standard deviations from the mean; that request is made at 15:30:00.\<close>

definition sample_small_db :: store where
  "sample_small_db =
     [(''a2'', \<lparr>temperature = 21, humidity = 45.5, timestamp = ''2024-01-01T01:00:00''\<rparr>),
      (''a1'', \<lparr>temperature = 20.5, humidity = 45, timestamp = ''2024-01-01T00:00:00''\<rparr>),
      (''a3'', \<lparr>temperature = 21, humidity = 46, timestamp = ''2024-01-01T02:00:00''\<rparr>)]"



section \<open>Refinement lemmas\<close>

lemma analysis_loop_window:
  "timestamps_valid p db \<Longrightarrow>
   analysis_loop p c db (ts, hs, tss) =
     Inr (ts @ map temperature (window p c db), hs @ map humidity (window p c db),
          tss @ map (time_of p) (window p c db))"
proof (induction db arbitrary: ts hs tss)
  case Nil
  then show ?case by (simp add: window_def)
next
  case (Cons kr db)
  obtain k r where kr: "kr = (k, r)" by (cases kr)
  from Cons.prems kr obtain t where t: "p (timestamp r) = Some t" and v: "timestamps_valid p db"
    by (auto simp: timestamps_valid_def)
  show ?case
    using Cons.IH [OF v] t kr
    by (simp add: window_def in_window_def time_of_def)
qed

lemma readings_loop_window:
  "timestamps_valid p db \<Longrightarrow>
   readings_loop p c db acc = Inr (acc @ window p c db)"
proof (induction db arbitrary: acc)
  case Nil
  then show ?case by (simp add: window_def)
next
  case (Cons kr db)
  obtain k r where kr: "kr = (k, r)" by (cases kr)
  from Cons.prems kr obtain t where t: "p (timestamp r) = Some t" and v: "timestamps_valid p db"
    by (auto simp: timestamps_valid_def)
  show ?case
    using Cons.IH [OF v] t kr
    by (simp add: window_def in_window_def)
qed

lemma insort_key_map:
  "insort_key f (g x) (map g xs) = map g (insort_key (\<lambda>a. f (g a)) x xs)"
  by (induction xs) auto

lemma sort_key_map: "sort_key f (map g xs) = map g (sort_key (\<lambda>a. f (g a)) xs)"
  by (induction xs) (auto simp: insort_key_map)

lemma zip3_map: "zip (map f xs) (zip (map g xs) (map h xs)) = map (\<lambda>x. (f x, g x, h x)) xs"
  by (induction xs) auto

lemma sorted_data_eq:
  "sort_key fst (zip (map f xs) (zip (map g xs) (map h xs)))
     = map (\<lambda>x. (f x, g x, h x)) (sort_key f xs)"
  by (simp add: zip3_map sort_key_map)

lemma max_list_Max: "xs \<noteq> [] \<Longrightarrow> max_list xs = Inr (Max (set xs))"
  by (cases xs) (simp_all add: max_list_def Max.set_eq_fold [symmetric])

lemma min_list_Min: "xs \<noteq> [] \<Longrightarrow> min_list xs = Inr (Min (set xs))"
  by (cases xs) (simp_all add: min_list_def Min.set_eq_fold [symmetric])

lemma mean_arithmetic: "xs \<noteq> [] \<Longrightarrow> mean xs = Inr (arithmetic_mean xs)"
  by (simp add: mean_def arithmetic_mean_def)

lemma stdev_sample: "2 \<le> length xs \<Longrightarrow> stdev xs = Inr (sample_std xs)"
  by (simp add: stdev_def sample_std_def arithmetic_mean_def Let_def)

lemma trend_detection_split:
  "trend_detection (map (\<lambda>x. (f x, g x, h x)) xs)
     = Inr (split_half_trend (map g xs), split_half_trend (map h xs))"
proof (cases "length xs > 1")
  case False
  then show ?thesis by (simp add: trend_detection_def split_half_trend_def)
next
  case True
  then have t: "take (length xs div 2) xs \<noteq> []" and d: "drop (length xs div 2) xs \<noteq> []"
    by auto
  show ?thesis
    using True t d
    by (simp add: trend_detection_def split_half_trend_def Let_def bind_exn_def
        mean_arithmetic take_map drop_map comp_def)
qed

lemma anomaly_loop_filter:
  "anomaly_loop fmt avt avh sdt sdh (map (\<lambda>x. (f x, temperature x, humidity x)) xs) acc
     = acc @ map (\<lambda>x. \<lparr>temperature = temperature x, humidity = humidity x, timestamp = fmt (f x),
                       reason = (if \<bar>temperature x - avt\<bar> > 2 * sdt then ''Temperature spike''
                                 else ''Humidity spike'')\<rparr>)
               (filter (\<lambda>x. \<bar>temperature x - avt\<bar> > 2 * sdt \<or> \<bar>humidity x - avh\<bar> > 2 * sdh) xs)"
  by (induction xs arbitrary: acc) auto

lemma anomaly_detection_flagged:
  "anomaly_detection fmt (map temperature w) (map humidity w)
      (arithmetic_mean (map temperature w)) (arithmetic_mean (map humidity w))
      (map (\<lambda>x. (time_of p x, temperature x, humidity x)) s)
     = Inr (flagged p fmt w s)"
  by (simp add: anomaly_detection_def flagged_def bind_exn_def stdev_sample anomaly_loop_filter
      anomaly_entry_def temperature_spike_def humidity_spike_def)

lemma get_analysis_eq:
  assumes "timestamps_valid p db" and "cutoff_time now hours = Inr c" and "window p c db \<noteq> []"
  shows "get_analysis p fmt now db hours =
     Inr \<lparr>period_hours = hours,
          readings_count = length (window p c db),
          temperature_stats =
            \<lparr>average = round_py (arithmetic_mean (map temperature (window p c db))) 2,
             maximum = round_py (Max (set (map temperature (window p c db)))) 2,
             minimum = round_py (Min (set (map temperature (window p c db)))) 2,
             trend = split_half_trend (map temperature (sorted_window p c db))\<rparr>,
          humidity_stats =
            \<lparr>average = round_py (arithmetic_mean (map humidity (window p c db))) 2,
             maximum = round_py (Max (set (map humidity (window p c db)))) 2,
             minimum = round_py (Min (set (map humidity (window p c db)))) 2,
             trend = split_half_trend (map humidity (sorted_window p c db))\<rparr>,
          comfort = comfort_analysis (arithmetic_mean (map temperature (window p c db)))
                      (arithmetic_mean (map humidity (window p c db))),
          anomalies = take 5 (flagged p fmt (window p c db) (sorted_window p c db))\<rparr>"
proof -
  from assms(3) have db: "db \<noteq> []" by (auto simp: window_def)
  have sd: "sort_key fst (zip (map (time_of p) (window p c db))
              (zip (map temperature (window p c db)) (map humidity (window p c db))))
            = map (\<lambda>x. (time_of p x, temperature x, humidity x)) (sorted_window p c db)"
    by (simp add: sorted_data_eq sorted_window_def)
  have mx: "max_list (map temperature (window p c db)) = Inr (Max (set (map temperature (window p c db))))"
    "min_list (map temperature (window p c db)) = Inr (Min (set (map temperature (window p c db))))"
    "max_list (map humidity (window p c db)) = Inr (Max (set (map humidity (window p c db))))"
    "min_list (map humidity (window p c db)) = Inr (Min (set (map humidity (window p c db))))"
    using assms(3) by (simp_all add: max_list_Max min_list_Min)
  have mn: "mean (map temperature (window p c db)) = Inr (arithmetic_mean (map temperature (window p c db)))"
    "mean (map humidity (window p c db)) = Inr (arithmetic_mean (map humidity (window p c db)))"
    using assms(3) by (simp_all add: mean_arithmetic)
  show ?thesis
    unfolding get_analysis_def
    using db assms(3)
    by (simp add: assms(2) bind_exn_def analysis_loop_window [OF assms(1)] mn mx sd
        trend_detection_split anomaly_detection_flagged except_clauses_def Let_def
        del: set_map)
qed

lemma sample_valid: "timestamps_valid sample_fromisoformat sample_db"
  by (simp add: timestamps_valid_def sample_fromisoformat_def sample_db_def sample_times_def)

lemma sample_cutoff: "cutoff_time sample_now 24 = Inr 63839597400000000"
  by (simp add: cutoff_time_def sample_now_def DATETIME_MAX_def)





lemma trend_labels_distinct: "RISING \<noteq> FALLING" "RISING \<noteq> STABLE" "FALLING \<noteq> STABLE"
  by (simp_all add: RISING_def FALLING_def STABLE_def)







lemma window_valid:
  "timestamps_valid p db \<Longrightarrow> window p c db = filter (\<lambda>r. c < time_of p r) (map snd db)"
  unfolding window_def
  by (rule filter_cong)
    (auto simp: timestamps_valid_def list_all_iff in_window_def time_of_def split: option.splits)

lemma cutoff_time_Inr:
  "cutoff_time now hours = Inr c \<longleftrightarrow>
     c = now - hours * 3600000000 \<and> 0 \<le> c \<and> c \<le> DATETIME_MAX"
  by (auto simp: cutoff_time_def Let_def)

lemma get_analysis_empty_window:
  assumes "timestamps_valid p db" and "cutoff_time now hours = Inr c" and "window p c db = []"
  shows "get_analysis p fmt now db hours =
           Inl (HTTPError 404 (if db = [] then ''No readings found''
                               else ''No recent readings found''))"
  using assms(3)
  by (simp add: get_analysis_def assms(2) bind_exn_def analysis_loop_window [OF assms(1)]
      except_clauses_def)











lemma small_valid: "timestamps_valid sample_fromisoformat sample_small_db"
  by (simp add: timestamps_valid_def sample_fromisoformat_def sample_small_db_def sample_times_def)

lemma small_window:
  "window sample_fromisoformat 63839597400000000 sample_small_db = map snd sample_small_db"
  by (simp add: window_def in_window_def sample_fromisoformat_def sample_small_db_def
      sample_times_def)






lemma small_nonempty: "sample_small_db \<noteq> []" "map snd sample_small_db \<noteq> []"
  by (simp_all add: sample_small_db_def)

lemma sample_time_of:
  "time_of sample_fromisoformat \<lparr>temperature = t, humidity = h, timestamp = ''2024-01-01T00:00:00''\<rparr> = 63839664000000000"
  "time_of sample_fromisoformat \<lparr>temperature = t, humidity = h, timestamp = ''2024-01-01T01:00:00''\<rparr> = 63839667600000000"
  "time_of sample_fromisoformat \<lparr>temperature = t, humidity = h, timestamp = ''2024-01-01T02:00:00''\<rparr> = 63839671200000000"
  "time_of sample_fromisoformat \<lparr>temperature = t, humidity = h, timestamp = ''2024-01-01T03:00:00''\<rparr> = 63839674800000000"
  "time_of sample_fromisoformat \<lparr>temperature = t, humidity = h, timestamp = ''2024-01-01T04:00:00''\<rparr> = 63839678400000000"
  "time_of sample_fromisoformat \<lparr>temperature = t, humidity = h, timestamp = ''2024-01-01T05:00:00''\<rparr> = 63839682000000000"
  by (simp_all add: time_of_def sample_fromisoformat_def sample_times_def)
















section \<open>Properties\<close>

subsection \<open>Trend detection\<close>



subsection \<open>Validation\<close>

text \<open>
  Claim C8. A temperature outside \<open>[-50, 150]\<close> is rejected with the temperature error
  whatever the humidity is: the temperature bound is checked first.
\<close>

theorem temperature_error_takes_precedence:
  assumes "\<not> (- 50 \<le> temperature r \<and> temperature r \<le> 150)"
  shows "add_reading isoformat now push_key db r
           = Inl (HTTPError 400 ''Temperature out of valid range'')"
  using assms by (simp add: add_reading_def except_clauses_def)

theorem temperature_error_takes_precedence_witness:
  "\<not> (- 50 \<le> (200::real) \<and> (200::real) \<le> 150) \<and>
   add_reading sample_isoformat sample_now ''k7'' sample_db \<lparr>temperature = 200, humidity = 250\<rparr>
     = Inl (HTTPError 400 ''Temperature out of valid range'')"
  using temperature_error_takes_precedence
    [of "\<lparr>temperature = 200, humidity = 250\<rparr>" sample_isoformat sample_now "''k7''" sample_db]
  by simp

text \<open>
  Claim C7, as the code has it. A temperature outside \<open>[-50, 150]\<close> is rejected with the
  temperature error; a humidity outside \<open>[0, 100]\<close> is rejected with the humidity error
  when the temperature is inside its range; a pair inside both ranges is accepted. The
  outcome of the two checks depends on the pair alone, not on the clock, the push key or the
  store, and a rejected reading returns no store.
\<close>

theorem validation_outcome:
  "(\<not> (- 50 \<le> temperature r \<and> temperature r \<le> 150) \<longrightarrow>
      add_reading f now k db r = Inl (HTTPError 400 ''Temperature out of valid range'')) \<and>
   ((- 50 \<le> temperature r \<and> temperature r \<le> 150) \<and> \<not> (0 \<le> humidity r \<and> humidity r \<le> 100) \<longrightarrow>
      add_reading f now k db r = Inl (HTTPError 400 ''Humidity must be between 0 and 100'')) \<and>
   ((- 50 \<le> temperature r \<and> temperature r \<le> 150) \<and> (0 \<le> humidity r \<and> humidity r \<le> 100) \<longrightarrow>
      (\<exists>resp db'. add_reading f now k db r = Inr (resp, db'))) \<and>
   (isl (add_reading f now k db r) \<longleftrightarrow> isl (add_reading f' now' k' db' r)) \<and>
   (\<forall>e. add_reading f now k db r = Inl e \<longrightarrow> add_reading f' now' k' db' r = Inl e)"
  by (simp add: add_reading_def except_clauses_def Let_def)

theorem validation_outcome_witness:
  "(- 50 \<le> (20::real) \<and> (20::real) \<le> 150) \<and> \<not> (0 \<le> (150::real) \<and> (150::real) \<le> 100) \<and>
   add_reading sample_isoformat sample_now ''k7'' sample_db \<lparr>temperature = 20, humidity = 150\<rparr>
     = Inl (HTTPError 400 ''Humidity must be between 0 and 100'') \<and>
   (0 \<le> (50::real) \<and> (50::real) \<le> 100) \<and>
   (\<exists>resp db'. add_reading sample_isoformat sample_now ''k7'' sample_db
                   \<lparr>temperature = 20, humidity = 50\<rparr> = Inr (resp, db'))"
  using validation_outcome
      [of "\<lparr>temperature = 20, humidity = 150\<rparr>" sample_isoformat sample_now "''k7''" sample_db
        sample_isoformat sample_now "''k7''" sample_db]
    validation_outcome
      [of "\<lparr>temperature = 20, humidity = 50\<rparr>" sample_isoformat sample_now "''k7''" sample_db
        sample_isoformat sample_now "''k7''" sample_db]
  by simp

text \<open>
  Claim C7 as stated fails when both values are out of range: a humidity of 200 with a
  temperature of 200 is not rejected with the humidity error.
\<close>

theorem humidity_error_counterexample:
  "\<not> (0 \<le> (200::real) \<and> (200::real) \<le> 100) \<and>
   add_reading sample_isoformat sample_now ''k7'' sample_db \<lparr>temperature = 200, humidity = 200\<rparr>
     \<noteq> Inl (HTTPError 400 ''Humidity must be between 0 and 100'')"
  by (simp add: add_reading_def except_clauses_def)

subsection \<open>Anomaly detection\<close>





subsection \<open>Comfort analysis\<close>



subsection \<open>Statistics and the shape of the result\<close>



text \<open>
  Claim C9. The result also holds \<open>period_hours\<close>, the \<open>hours\<close> argument, and
  \<open>readings_count\<close>, the number of readings in the window.
\<close>

theorem result_reports_period_and_count:
  assumes "timestamps_valid p db" and "cutoff_time now hours = Inr c"
    and "window p c db \<noteq> []"
  shows "\<exists>r. get_analysis p fmt now db hours = Inr r \<and>
    period_hours r = hours \<and> readings_count r = length (window p c db)"
  by (simp add: get_analysis_eq [OF assms])

theorem result_reports_period_and_count_witness:
  "timestamps_valid sample_fromisoformat sample_small_db \<and>
   cutoff_time sample_now 24 = Inr 63839597400000000 \<and>
   window sample_fromisoformat 63839597400000000 sample_small_db \<noteq> [] \<and>
   (\<exists>r. get_analysis sample_fromisoformat sample_isoformat sample_now sample_small_db 24 = Inr r \<and>
        period_hours r = 24 \<and> readings_count r = 3)"
proof -
  have ne: "window sample_fromisoformat 63839597400000000 sample_small_db \<noteq> []"
    by (simp add: small_window small_nonempty)
  have len: "length (window sample_fromisoformat 63839597400000000 sample_small_db) = 3"
    unfolding small_window by (simp add: sample_small_db_def)
  show ?thesis
    using result_reports_period_and_count [OF small_valid sample_cutoff ne, of sample_isoformat]
      small_valid sample_cutoff ne
    unfolding len by blast
qed

subsection \<open>The time window\<close>

text \<open>
  Claim C5, as the code has it. Let every stored timestamp parse and let \<open>now\<close> minus
  \<open>hours\<close> hours be a representable datetime. The loop retains exactly the readings whose
  time is strictly greater than that cutoff; the analysis fails with status 404 when none is
  retained and returns a result over the retained readings otherwise. On the empty store it
  fails with status 404 for every \<open>hours\<close> and \<open>now\<close>.
\<close>

theorem analysis_fails_iff_window_empty:
  assumes "timestamps_valid p db"
    and "0 \<le> now - hours * 3600000000" and "now - hours * 3600000000 \<le> DATETIME_MAX"
    and "w = filter (\<lambda>r. now - hours * 3600000000 < time_of p r) (map snd db)"
  shows "analysis_loop p (now - hours * 3600000000) db ([], [], [])
           = Inr (map temperature w, map humidity w, map (time_of p) w) \<and>
    (w = [] \<longrightarrow> get_analysis p fmt now db hours =
                   Inl (HTTPError 404 (if db = [] then ''No readings found''
                                       else ''No recent readings found''))) \<and>
    (w \<noteq> [] \<longrightarrow> (\<exists>r. get_analysis p fmt now db hours = Inr r \<and>
                       readings_count r = length w)) \<and>
    (\<forall>hours' now'. get_analysis p fmt now' [] hours' = Inl (HTTPError 404 ''No readings found''))"
proof -
  have c: "cutoff_time now hours = Inr (now - hours * 3600000000)"
    using assms(2,3) by (simp add: cutoff_time_Inr)
  have w: "window p (now - hours * 3600000000) db = w"
    using assms(4) by (simp add: window_valid [OF assms(1)])
  have "w \<noteq> [] \<Longrightarrow> \<exists>r. get_analysis p fmt now db hours = Inr r \<and> readings_count r = length w"
    using get_analysis_eq [OF assms(1) c, of fmt] w by simp
  moreover have "w = [] \<Longrightarrow> get_analysis p fmt now db hours =
                   Inl (HTTPError 404 (if db = [] then ''No readings found''
                                       else ''No recent readings found''))"
    using get_analysis_empty_window [OF assms(1) c, of fmt] w by simp
  moreover have "\<forall>hours' now'. get_analysis p fmt now' [] hours'
                   = Inl (HTTPError 404 ''No readings found'')"
    by (simp add: get_analysis_def except_clauses_def)
  ultimately show ?thesis
    using analysis_loop_window [OF assms(1), of "now - hours * 3600000000" "[]" "[]" "[]"] w
    by simp
qed

theorem analysis_fails_iff_window_empty_witness:
  "timestamps_valid sample_fromisoformat sample_db \<and>
   0 \<le> sample_now - 1 * 3600000000 \<and> sample_now - 1 * 3600000000 \<le> DATETIME_MAX \<and>
   filter (\<lambda>r. sample_now - 1 * 3600000000 < time_of sample_fromisoformat r) (map snd sample_db)
     = [\<lparr>temperature = 80, humidity = 40, timestamp = ''2024-01-01T05:00:00''\<rparr>] \<and>
   (\<exists>r. get_analysis sample_fromisoformat sample_isoformat sample_now sample_db 1 = Inr r \<and>
        readings_count r = 1) \<and>
   0 \<le> sample_now - 0 * 3600000000 \<and> sample_now - 0 * 3600000000 \<le> DATETIME_MAX \<and>
   filter (\<lambda>r. sample_now - 0 * 3600000000 < time_of sample_fromisoformat r) (map snd sample_db)
     = [] \<and>
   get_analysis sample_fromisoformat sample_isoformat sample_now sample_db 0
     = Inl (HTTPError 404 ''No recent readings found'')"
proof -
  have w1: "filter (\<lambda>r. sample_now - 1 * 3600000000 < time_of sample_fromisoformat r)
              (map snd sample_db)
            = [\<lparr>temperature = 80, humidity = 40, timestamp = ''2024-01-01T05:00:00''\<rparr>]"
    by (simp add: sample_db_def sample_time_of sample_now_def)
  have w0: "filter (\<lambda>r. sample_now - 0 * 3600000000 < time_of sample_fromisoformat r)
              (map snd sample_db) = []"
    by (simp add: sample_db_def sample_time_of sample_now_def)
  have r1: "0 \<le> sample_now - 1 * 3600000000" "sample_now - 1 * 3600000000 \<le> DATETIME_MAX"
    and r0: "0 \<le> sample_now - 0 * 3600000000" "sample_now - 0 * 3600000000 \<le> DATETIME_MAX"
    by (simp_all add: sample_now_def DATETIME_MAX_def)
  have db: "sample_db \<noteq> []" by (simp add: sample_db_def)
  have one: "length [\<lparr>temperature = 80, humidity = 40, timestamp = ''2024-01-01T05:00:00''\<rparr>] = 1"
    by simp
  have "\<exists>r. get_analysis sample_fromisoformat sample_isoformat sample_now sample_db 1 = Inr r \<and>
        readings_count r = 1"
    using analysis_fails_iff_window_empty [OF sample_valid r1 w1 [symmetric], of sample_isoformat]
    unfolding one by blast
  moreover have "get_analysis sample_fromisoformat sample_isoformat sample_now sample_db 0
     = Inl (HTTPError 404 ''No recent readings found'')"
    using analysis_fails_iff_window_empty [OF sample_valid r0 w0 [symmetric], of sample_isoformat]
      db
    by simp
  ultimately show ?thesis
    using sample_valid r1 r0 w1 w0 by blast
qed

text \<open>
  Claim C5 as stated fails when the cutoff is not representable: with a window of
  1000000000 hours every stored reading is later than the cutoff, and the request fails with
  status 500 (\<open>OverflowError\<close>), neither with 404 nor with a result.
\<close>

theorem analysis_overflow_counterexample:
  "window sample_fromisoformat (sample_now - 1000000000 * 3600000000) sample_db \<noteq> [] \<and>
   get_analysis sample_fromisoformat sample_isoformat sample_now sample_db 1000000000
     = Inl (InternalServerError OverflowError)"
  by (simp add: sample_db_def window_def in_window_def sample_fromisoformat_def sample_times_def sample_now_def
      get_analysis_def cutoff_time_def bind_exn_def except_clauses_def)

text \<open>
  Claim C10, as the code has it. Let every stored timestamp parse, and let the store be empty
  or \<open>now\<close> minus \<open>hours\<close> hours be a representable datetime. Then
  \<open>get_readings\<close> returns the readings whose time is strictly greater than the cutoff,
  sorted in ascending order of their timestamp strings; this is the empty list, and not an
  error, when there is none.
\<close>

theorem readings_filtered_and_sorted:
  assumes "timestamps_valid p db"
    and "db = [] \<or> (0 \<le> now - hours * 3600000000 \<and> now - hours * 3600000000 \<le> DATETIME_MAX)"
    and "w = filter (\<lambda>r. now - hours * 3600000000 < time_of p r) (map snd db)"
  shows "\<exists>rs. get_readings p now db hours = Inr rs \<and>
    (w = [] \<longrightarrow> rs = []) \<and>
    rs = sort_key timestamp w \<and> sorted (map timestamp rs) \<and> mset rs = mset w"
proof (cases "db = []")
  case True
  with assms(3) show ?thesis
    by (simp add: get_readings_def except_exception_def)
next
  case False
  with assms(2) have c: "cutoff_time now hours = Inr (now - hours * 3600000000)"
    by (simp add: cutoff_time_Inr)
  have w: "window p (now - hours * 3600000000) db = w"
    using assms(3) by (simp add: window_valid [OF assms(1)])
  have "get_readings p now db hours = Inr (sort_key timestamp w)"
    using False
    by (simp add: get_readings_def c bind_exn_def readings_loop_window [OF assms(1)] w
        except_exception_def)
  then show ?thesis by simp
qed

theorem readings_filtered_and_sorted_witness:
  "timestamps_valid sample_fromisoformat sample_db \<and>
   0 \<le> sample_now - 2 * 3600000000 \<and> sample_now - 2 * 3600000000 \<le> DATETIME_MAX \<and>
   filter (\<lambda>r. sample_now - 2 * 3600000000 < time_of sample_fromisoformat r) (map snd sample_db)
     = [\<lparr>temperature = 80, humidity = 40, timestamp = ''2024-01-01T05:00:00''\<rparr>,
        \<lparr>temperature = 20, humidity = 100, timestamp = ''2024-01-01T04:00:00''\<rparr>] \<and>
   get_readings sample_fromisoformat sample_now sample_db 2
     = Inr [\<lparr>temperature = 20, humidity = 100, timestamp = ''2024-01-01T04:00:00''\<rparr>,
            \<lparr>temperature = 80, humidity = 40, timestamp = ''2024-01-01T05:00:00''\<rparr>]"
proof -
  have w: "filter (\<lambda>r. sample_now - 2 * 3600000000 < time_of sample_fromisoformat r)
              (map snd sample_db)
     = [\<lparr>temperature = 80, humidity = 40, timestamp = ''2024-01-01T05:00:00''\<rparr>,
        \<lparr>temperature = 20, humidity = 100, timestamp = ''2024-01-01T04:00:00''\<rparr>]"
    by (simp add: sample_db_def sample_time_of sample_now_def)
  have r: "0 \<le> sample_now - 2 * 3600000000 \<and> sample_now - 2 * 3600000000 \<le> DATETIME_MAX"
    by (simp add: sample_now_def DATETIME_MAX_def)
  have s: "sort_key timestamp
       [\<lparr>temperature = 80, humidity = 40, timestamp = ''2024-01-01T05:00:00''\<rparr>,
        \<lparr>temperature = 20, humidity = 100, timestamp = ''2024-01-01T04:00:00''\<rparr>]
     = [\<lparr>temperature = 20, humidity = 100, timestamp = ''2024-01-01T04:00:00''\<rparr>,
        \<lparr>temperature = 80, humidity = 40, timestamp = ''2024-01-01T05:00:00''\<rparr>]"
    by (simp add: less_eq_char_def)
  have "get_readings sample_fromisoformat sample_now sample_db 2
     = Inr [\<lparr>temperature = 20, humidity = 100, timestamp = ''2024-01-01T04:00:00''\<rparr>,
            \<lparr>temperature = 80, humidity = 40, timestamp = ''2024-01-01T05:00:00''\<rparr>]"
    using readings_filtered_and_sorted [OF sample_valid disjI2 [OF r] w [symmetric]]
    unfolding s by blast
  then show ?thesis
    using sample_valid r w by blast
qed

text \<open>
  Claim C10 as stated fails when the cutoff is not representable: with \<open>hours\<close> =
  -1000000000 no stored reading is later than the cutoff, and the request fails with status
  500 (\<open>OverflowError\<close>) instead of returning the empty list.
\<close>

theorem readings_overflow_counterexample:
  "window sample_fromisoformat (sample_now - (- 1000000000) * 3600000000) sample_db = [] \<and>
   get_readings sample_fromisoformat sample_now sample_db (- 1000000000)
     = Inl (InternalServerError OverflowError)"
  by (simp add: sample_db_def window_def in_window_def sample_fromisoformat_def sample_times_def sample_now_def
      get_readings_def cutoff_time_def DATETIME_MAX_def bind_exn_def except_exception_def)

end
